theory Spec2Isabelle
  imports Main "HOL-Library.Sublist"
begin

text \<open>
  The conversation of \<^verbatim>\<open>bot.py\<close>: a form of six questions about an event, a
  summary to confirm or to edit, and one row appended to a spreadsheet on submission. The
  handlers are modelled as functions from a message and a session to the session they
  leave, the answers they send and the rows they hand to the spreadsheet; a handler that
  raises returns the exception instead.
\<close>

section \<open>Text values\<close>

text \<open>
  A Python \<^verbatim>\<open>str\<close> is a sequence of Unicode code points, and \<^verbatim>\<open>len\<close> counts
  code points. A string is therefore a list of code points, each a natural number; the
  bot's Cyrillic and emoji literals are written out as their code points.
\<close>

type_synonym ustring = "nat list"

text \<open>
  \<^verbatim>\<open>message.text\<close> has type \<^verbatim>\<open>Optional[str]\<close>: a photo, a sticker or a
  voice message carries no text. The handlers store \<^verbatim>\<open>message.text\<close> as it is, so a
  stored field is a string or \<^verbatim>\<open>None\<close> as well.
\<close>

datatype pyval = Str ustring | PyNone

text \<open>\<^verbatim>\<open>sub in s\<close> on strings: \<open>sub\<close> occurs in \<open>s\<close> as a contiguous block.\<close>

fun py_in :: "ustring \<Rightarrow> ustring \<Rightarrow> bool" where
  "py_in sub [] = (sub = [])"
| "py_in sub (c # s) = (prefix sub (c # s) \<or> py_in sub s)"

text \<open>What an f-string puts in place of \<^verbatim>\<open>{v}\<close>: the string itself, or the word None.\<close>

fun py_str :: "pyval \<Rightarrow> ustring" where
  "py_str (Str s) = s"
| "py_str PyNone = [78, 111, 110, 101]"

text \<open>
  \<^verbatim>\<open>str.strip()\<close> without argument removes leading and trailing white space, which
  for Python is the code points below (\<^verbatim>\<open>str.isspace\<close>).
\<close>

definition isspace :: "nat \<Rightarrow> bool" where
  "isspace c \<longleftrightarrow>
     (9 \<le> c \<and> c \<le> 13) \<or> (28 \<le> c \<and> c \<le> 32) \<or> c = 133 \<or> c = 160 \<or> c = 5760 \<or>
     (8192 \<le> c \<and> c \<le> 8202) \<or> c = 8232 \<or> c = 8233 \<or> c = 8239 \<or> c = 8287 \<or> c = 12288"

definition str_strip :: "ustring \<Rightarrow> ustring" where
  "str_strip s = rev (dropWhile isspace (rev (dropWhile isspace s)))"

section \<open>The clock and the time stamp\<close>

record datetime =
  year :: nat
  month :: nat
  day :: nat
  hour :: nat
  minute :: nat

text \<open>Decimal digits of a number, as code points (\<open>48\<close> is the digit zero).\<close>

fun dec :: "nat \<Rightarrow> ustring" where
  "dec n = (if n < 10 then [48 + n] else dec (n div 10) @ [48 + n mod 10])"

declare dec.simps [simp del]

text \<open>\<^verbatim>\<open>%d\<close>, \<^verbatim>\<open>%m\<close>, \<^verbatim>\<open>%H\<close> and \<^verbatim>\<open>%M\<close> pad with a zero to two digits.\<close>

definition pad2 :: "nat \<Rightarrow> ustring" where
  "pad2 n = (if n < 10 then 48 # dec n else dec n)"

text \<open>
  \<^verbatim>\<open>strftime("%d.%m.%Y %H:%M")\<close>. \<^verbatim>\<open>%Y\<close> is the year in decimal; the C library
  under Python does not pad a year below 1000, so the year is written with the digits it
  has.
\<close>

definition strftime :: "datetime \<Rightarrow> ustring" where
  "strftime dt =
     pad2 (day dt) @ [46] @ pad2 (month dt) @ [46] @ dec (year dt) @ [32] @
     pad2 (hour dt) @ [58] @ pad2 (minute dt)"

definition is_digit :: "nat \<Rightarrow> bool" where
  "is_digit c \<longleftrightarrow> 48 \<le> c \<and> c \<le> 57"

text \<open>The shape DD.MM.YYYY HH:MM: sixteen characters, digits around the separators.\<close>

fun is_ddmmyyyy_hhmm :: "ustring \<Rightarrow> bool" where
  "is_ddmmyyyy_hhmm [d1, d2, p1, m1, m2, p2, y1, y2, y3, y4, sp, h1, h2, cl, n1, n2] =
     (is_digit d1 \<and> is_digit d2 \<and> p1 = 46 \<and> is_digit m1 \<and> is_digit m2 \<and> p2 = 46 \<and>
      is_digit y1 \<and> is_digit y2 \<and> is_digit y3 \<and> is_digit y4 \<and> sp = 32 \<and>
      is_digit h1 \<and> is_digit h2 \<and> cl = 58 \<and> is_digit n1 \<and> is_digit n2)"
| "is_ddmmyyyy_hhmm _ = False"

section \<open>The bot's literals\<close>

definition msg_welcome :: ustring where
  \<comment> \<open>bot.py 60-62: greeting that ends with question 1, the event's name\<close>
  "msg_welcome = [128075, 32, 1047, 1076, 1088, 1072, 1074, 1089, 1090, 1074, 1091, 1081,
     1090, 1077, 33, 32, 1071, 32, 1087, 1086, 1084, 1086, 1075, 1091, 32, 1074, 1072, 1084,
     32, 1076, 1086, 1073, 1072, 1074, 1080, 1090, 1100, 32, 1080, 1085, 1092, 1086, 1088,
     1084, 1072, 1094, 1080, 1102, 32, 1086, 32, 1084, 1077, 1088, 1086, 1087, 1088, 1080,
     1103, 1090, 1080, 1080, 46, 10, 10, 1055, 1086, 1078, 1072, 1083, 1091, 1081, 1089,
     1090, 1072, 44, 32, 1086, 1090, 1074, 1077, 1090, 1100, 1090, 1077, 32, 1085, 1072, 32,
     1085, 1077, 1089, 1082, 1086, 1083, 1100, 1082, 1086, 32, 1074, 1086, 1087, 1088, 1086,
     1089, 1086, 1074, 46, 10, 10, 49, 65039, 8419, 32, 1050, 1072, 1082, 32, 1085, 1072,
     1079, 1099, 1074, 1072, 1077, 1090, 1089, 1103, 32, 1084, 1077, 1088, 1086, 1087, 1088,
     1080, 1103, 1090, 1080, 1077, 63]"

definition msg_ask_date :: ustring where
  \<comment> \<open>bot.py 69: question 2, the date\<close>
  "msg_ask_date = [50, 65039, 8419, 32, 1059, 1082, 1072, 1078, 1080, 1090, 1077, 32, 1076,
     1072, 1090, 1091, 32, 1087, 1088, 1086, 1074, 1077, 1076, 1077, 1085, 1080, 1103, 32,
     40, 1085, 1072, 1087, 1088, 1080, 1084, 1077, 1088, 44, 32, 49, 53, 46, 48, 54, 46, 50,
     48, 50, 53, 32, 1080, 1083, 1080, 32, 49, 53, 8211, 49, 55, 46, 48, 54, 46, 50, 48, 50,
     53, 41, 58]"

definition msg_ask_time :: ustring where
  \<comment> \<open>bot.py 75: question 3, the starting time\<close>
  "msg_ask_time = [51, 65039, 8419, 32, 1042, 1086, 32, 1089, 1082, 1086, 1083, 1100, 1082,
     1086, 32, 1085, 1072, 1095, 1080, 1085, 1072, 1077, 1090, 1089, 1103, 32, 1084, 1077,
     1088, 1086, 1087, 1088, 1080, 1103, 1090, 1080, 1077, 63, 32, 40, 1085, 1072, 1087,
     1088, 1080, 1084, 1077, 1088, 44, 32, 49, 52, 58, 48, 48, 32, 1080, 1083, 1080, 32, 49,
     52, 58, 48, 48, 8211, 49, 55, 58, 48, 48, 41, 58]"

definition msg_ask_region :: ustring where
  \<comment> \<open>bot.py 81: question 4, town and region\<close>
  "msg_ask_region = [52, 65039, 8419, 32, 1043, 1076, 1077, 32, 1087, 1088, 1086, 1093, 1086,
     1076, 1080, 1090, 32, 1084, 1077, 1088, 1086, 1087, 1088, 1080, 1103, 1090, 1080, 1077,
     63, 32, 40, 1075, 1086, 1088, 1086, 1076, 32, 1080, 32, 1088, 1077, 1075, 1080, 1086,
     1085, 41, 58]"

definition msg_ask_description :: ustring where
  \<comment> \<open>bot.py 87: question 5, a description of at most 300 characters\<close>
  "msg_ask_description = [53, 65039, 8419, 32, 1050, 1088, 1072, 1090, 1082, 1086, 32, 1086,
     1087, 1080, 1096, 1080, 1090, 1077, 32, 1084, 1077, 1088, 1086, 1087, 1088, 1080, 1103,
     1090, 1080, 1077, 32, 40, 1076, 1086, 32, 51, 48, 48, 32, 1089, 1080, 1084, 1074, 1086,
     1083, 1086, 1074, 41, 58]"

definition msg_too_long :: ustring where
  \<comment> \<open>bot.py 93: the description is over 300 characters, try again\<close>
  "msg_too_long = [10071, 32, 1055, 1086, 1078, 1072, 1083, 1091, 1081, 1089, 1090, 1072, 44,
     32, 1091, 1083, 1086, 1078, 1080, 1090, 1077, 1089, 1100, 32, 1074, 32, 51, 48, 48, 32,
     1089, 1080, 1084, 1074, 1086, 1083, 1086, 1074, 46, 32, 1055, 1086, 1087, 1088, 1086,
     1073, 1091, 1081, 1090, 1077, 32, 1089, 1085, 1086, 1074, 1072, 58]"

definition msg_ask_participation :: ustring where
  \<comment> \<open>bot.py 96: question 6, how to take part\<close>
  "msg_ask_participation = [54, 65039, 8419, 32, 1050, 1072, 1082, 32, 1087, 1088, 1080, 1085,
     1103, 1090, 1100, 32, 1091, 1095, 1072, 1089, 1090, 1080, 1077, 63, 32, 40, 1089, 1089,
     1099, 1083, 1082, 1072, 44, 32, 1090, 1077, 1083, 1077, 1092, 1086, 1085, 44, 32, 1092,
     1086, 1088, 1084, 1072, 32, 1080, 32, 1090, 46, 1076, 46, 41, 58]"

definition summary_head :: ustring where
  \<comment> \<open>bot.py 104-105: heading of the summary and the label of the name\<close>
  "summary_head = [9989, 32, 1055, 1088, 1086, 1074, 1077, 1088, 1100, 1090, 1077, 32, 1080,
     1085, 1092, 1086, 1088, 1084, 1072, 1094, 1080, 1102, 58, 10, 10, 42, 1053, 1072, 1079,
     1074, 1072, 1085, 1080, 1077, 58, 42, 32]"

definition summary_date :: ustring where
  \<comment> \<open>bot.py 106: label of the date\<close>
  "summary_date = [10, 42, 1044, 1072, 1090, 1072, 58, 42, 32]"

definition summary_time :: ustring where
  \<comment> \<open>bot.py 107: label of the time\<close>
  "summary_time = [10, 42, 1042, 1088, 1077, 1084, 1103, 58, 42, 32]"

definition summary_region :: ustring where
  \<comment> \<open>bot.py 108: label of the region\<close>
  "summary_region = [10, 42, 1056, 1077, 1075, 1080, 1086, 1085, 58, 42, 32]"

definition summary_description :: ustring where
  \<comment> \<open>bot.py 109: label of the description\<close>
  "summary_description = [10, 42, 1054, 1087, 1080, 1089, 1072, 1085, 1080, 1077, 58, 42, 32]"

definition summary_participation :: ustring where
  \<comment> \<open>bot.py 110: label of the way to take part\<close>
  "summary_participation = [10, 42, 1050, 1072, 1082, 32, 1087, 1088, 1080, 1085, 1103, 1090,
     1100, 32, 1091, 1095, 1072, 1089, 1090, 1080, 1077, 58, 42, 32]"

definition summary_foot :: ustring where
  \<comment> \<open>bot.py 110-112: how to submit and how to edit\<close>
  "summary_foot = [10, 10, 1045, 1089, 1083, 1080, 32, 1074, 1089, 1105, 32, 1074, 1077, 1088,
     1085, 1086, 32, 8212, 32, 1085, 1072, 1087, 1080, 1096, 1080, 1090, 1077, 32, 42, 42,
     1086, 1090, 1087, 1088, 1072, 1074, 1080, 1090, 1100, 42, 42, 46, 10, 1063, 1090, 1086,
     1073, 1099, 32, 1080, 1079, 1084, 1077, 1085, 1080, 1090, 1100, 32, 8212, 32, 1085,
     1072, 1087, 1080, 1096, 1080, 1090, 1077, 32, 171, 1080, 1079, 1084, 1077, 1085, 1080,
     1090, 1100, 32, 91, 1087, 1086, 1083, 1077, 93, 187, 46]"

definition kw_submit :: ustring where
  \<comment> \<open>bot.py 120: the submit token (otpravit')\<close>
  "kw_submit = [1086, 1090, 1087, 1088, 1072, 1074, 1080, 1090, 1100]"

definition msg_saved :: ustring where
  \<comment> \<open>bot.py 133: thanks, the event was added\<close>
  "msg_saved = [128232, 32, 1057, 1087, 1072, 1089, 1080, 1073, 1086, 33, 32, 1052, 1077,
     1088, 1086, 1087, 1088, 1080, 1103, 1090, 1080, 1077, 32, 1076, 1086, 1073, 1072, 1074,
     1083, 1077, 1085, 1086, 32, 1074, 32, 1073, 1072, 1079, 1091, 46]"

definition msg_not_saved :: ustring where
  \<comment> \<open>bot.py 136: saving failed, try later\<close>
  "msg_not_saved = [9888, 65039, 32, 1053, 1077, 32, 1091, 1076, 1072, 1083, 1086, 1089, 1100,
     32, 1089, 1086, 1093, 1088, 1072, 1085, 1080, 1090, 1100, 46, 32, 1055, 1086, 1087,
     1088, 1086, 1073, 1091, 1081, 1090, 1077, 32, 1087, 1086, 1079, 1078, 1077, 46]"

definition kw_edit :: ustring where
  \<comment> \<open>bot.py 138: the edit token (izmenit')\<close>
  "kw_edit = [1080, 1079, 1084, 1077, 1085, 1080, 1090, 1100]"

definition kw_name :: ustring where
  \<comment> \<open>bot.py 140: keyword of the name (nazvanie)\<close>
  "kw_name = [1085, 1072, 1079, 1074, 1072, 1085, 1080, 1077]"

definition kw_date :: ustring where
  \<comment> \<open>bot.py 141: keyword of the date (data)\<close>
  "kw_date = [1076, 1072, 1090, 1072]"

definition kw_time :: ustring where
  \<comment> \<open>bot.py 142: keyword of the time (vremya)\<close>
  "kw_time = [1074, 1088, 1077, 1084, 1103]"

definition kw_region :: ustring where
  \<comment> \<open>bot.py 143: keyword of the region (region)\<close>
  "kw_region = [1088, 1077, 1075, 1080, 1086, 1085]"

definition kw_description :: ustring where
  \<comment> \<open>bot.py 144: keyword of the description (opisanie)\<close>
  "kw_description = [1086, 1087, 1080, 1089, 1072, 1085, 1080, 1077]"

definition kw_participation :: ustring where
  \<comment> \<open>bot.py 145: keyword of the way to take part (uchastie)\<close>
  "kw_participation = [1091, 1095, 1072, 1089, 1090, 1080, 1077]"

definition prompt_name :: ustring where
  \<comment> \<open>bot.py 150: enter the new name\<close>
  "prompt_name = [1042, 1074, 1077, 1076, 1080, 1090, 1077, 32, 1085, 1086, 1074, 1086, 1077,
     32, 1085, 1072, 1079, 1074, 1072, 1085, 1080, 1077, 58]"

definition prompt_date :: ustring where
  \<comment> \<open>bot.py 151: enter the new date\<close>
  "prompt_date = [1042, 1074, 1077, 1076, 1080, 1090, 1077, 32, 1085, 1086, 1074, 1091, 1102,
     32, 1076, 1072, 1090, 1091, 58]"

definition prompt_time :: ustring where
  \<comment> \<open>bot.py 152: enter the new time\<close>
  "prompt_time = [1042, 1074, 1077, 1076, 1080, 1090, 1077, 32, 1085, 1086, 1074, 1086, 1077,
     32, 1074, 1088, 1077, 1084, 1103, 58]"

definition prompt_region :: ustring where
  \<comment> \<open>bot.py 153: enter the new region\<close>
  "prompt_region = [1042, 1074, 1077, 1076, 1080, 1090, 1077, 32, 1085, 1086, 1074, 1099,
     1081, 32, 1088, 1077, 1075, 1080, 1086, 1085, 58]"

definition prompt_description :: ustring where
  \<comment> \<open>bot.py 154: new description, at most 300 characters\<close>
  "prompt_description = [1053, 1086, 1074, 1086, 1077, 32, 1086, 1087, 1080, 1089, 1072, 1085,
     1080, 1077, 32, 40, 1076, 1086, 32, 51, 48, 48, 32, 1089, 1080, 1084, 1074, 1086, 1083,
     1086, 1074, 41, 58]"

definition prompt_participation :: ustring where
  \<comment> \<open>bot.py 155: how to take part\<close>
  "prompt_participation = [1050, 1072, 1082, 32, 1087, 1088, 1080, 1085, 1103, 1090, 1100, 32,
     1091, 1095, 1072, 1089, 1090, 1080, 1077, 58]"

definition msg_not_understood :: ustring where
  \<comment> \<open>bot.py 160: not understood, with an example of an edit command\<close>
  "msg_not_understood = [1053, 1077, 32, 1087, 1086, 1085, 1103, 1083, 46, 32, 1055, 1088,
     1080, 1084, 1077, 1088, 58, 32, 171, 1080, 1079, 1084, 1077, 1085, 1080, 1090, 1100,
     32, 1076, 1072, 1090, 1072, 187, 46]"

definition msg_help :: ustring where
  \<comment> \<open>bot.py 162: write the submit token or the edit token with a field\<close>
  "msg_help = [1053, 1072, 1087, 1080, 1096, 1080, 1090, 1077, 32, 171, 1086, 1090, 1087,
     1088, 1072, 1074, 1080, 1090, 1100, 187, 32, 1080, 1083, 1080, 32, 171, 1080, 1079,
     1084, 1077, 1085, 1080, 1090, 1100, 32, 91, 1087, 1086, 1083, 1077, 93, 187, 46]"


section \<open>Sessions, messages and the environment\<close>

text \<open>
  The states of \<^verbatim>\<open>class EventForm(StatesGroup)\<close>. The state of a conversation is
  one of them or \<^verbatim>\<open>None\<close>: no form is open (the specification's IDLE).
\<close>

datatype EventForm =
    EventForm_name
  | EventForm_date
  | EventForm_time
  | EventForm_region
  | EventForm_description
  | EventForm_participation
  | EventForm_confirm

text \<open>
  \<^verbatim>\<open>FSMContext\<close>, for one conversation: the current state and the dictionary of
  collected answers, keyed by the field's name.
\<close>

record FSMContext =
  state :: "EventForm option"
  data :: "string \<rightharpoonup> pyval"

definition clear :: "FSMContext \<Rightarrow> FSMContext" where
  "clear c = c\<lparr>state := None, data := Map.empty\<rparr>"

definition set_state :: "EventForm option \<Rightarrow> FSMContext \<Rightarrow> FSMContext" where
  "set_state s c = c\<lparr>state := s\<rparr>"

definition update_data :: "string \<Rightarrow> pyval \<Rightarrow> FSMContext \<Rightarrow> FSMContext" where
  "update_data k v c = c\<lparr>data := (data c)(k \<mapsto> v)\<rparr>"

text \<open>\<^verbatim>\<open>data.get(k, default)\<close>.\<close>

definition dict_get :: "(string \<rightharpoonup> pyval) \<Rightarrow> string \<Rightarrow> pyval \<Rightarrow> pyval" where
  "dict_get d k dflt = (case d k of None \<Rightarrow> dflt | Some v \<Rightarrow> v)"

record Message =
  message_text :: pyval

text \<open>One call of \<^verbatim>\<open>message.answer\<close>: the text and the \<^verbatim>\<open>parse_mode\<close> argument.\<close>

record sent_message =
  answer_text :: ustring
  parse_mode :: "string option"

definition answer :: "ustring \<Rightarrow> sent_message" where
  "answer s = \<lparr>answer_text = s, parse_mode = None\<rparr>"

text \<open>
  What a handler needs from outside the repository:
  \<^item> \<^verbatim>\<open>str.lower\<close>, the Unicode lower-casing of Python, left open: every theorem
    holds for any function in its place;
  \<^item> \<^verbatim>\<open>sheet.append_row\<close>: \<open>True\<close> when the call returns, \<open>False\<close> when it raises
    an \<^verbatim>\<open>Exception\<close>;
  \<^item> \<^verbatim>\<open>datetime.datetime.now()\<close>, the reading of the clock.
  \<^verbatim>\<open>message.answer\<close> is taken to deliver every text it is given.
\<close>

record env =
  str_lower :: "ustring \<Rightarrow> ustring"
  sheet_append_row :: "pyval list \<Rightarrow> bool"
  datetime_now :: datetime

text \<open>
  What one handler run did: the session it leaves, the answers sent in order, and the rows
  handed to \<^verbatim>\<open>sheet.append_row\<close>, one per call, whether or not the call succeeded.
\<close>

record outcome =
  ctx :: FSMContext
  answers :: "sent_message list"
  append_row_calls :: "pyval list list"

text \<open>
  A handler that raises leaves through \<open>Inl\<close>, with the exception and the session as it
  was when the exception left the handler.
\<close>

datatype error = TypeError | AttributeError | KeyError

type_synonym result = "(error \<times> FSMContext) + outcome"

section \<open>The handlers\<close>

definition cmd_start :: "Message \<Rightarrow> FSMContext \<Rightarrow> result" where
  "cmd_start message c =
     (let c1 = clear c;
          c2 = set_state (Some EventForm_name) c1
      in Inr \<lparr>ctx = c2, answers = [answer msg_welcome], append_row_calls = []\<rparr>)"

definition process_name :: "Message \<Rightarrow> FSMContext \<Rightarrow> result" where
  "process_name message c =
     (let c1 = update_data ''name'' (message_text message) c;
          c2 = set_state (Some EventForm_date) c1
      in Inr \<lparr>ctx = c2, answers = [answer msg_ask_date], append_row_calls = []\<rparr>)"

definition process_date :: "Message \<Rightarrow> FSMContext \<Rightarrow> result" where
  "process_date message c =
     (let c1 = update_data ''date'' (message_text message) c;
          c2 = set_state (Some EventForm_time) c1
      in Inr \<lparr>ctx = c2, answers = [answer msg_ask_time], append_row_calls = []\<rparr>)"

definition process_time :: "Message \<Rightarrow> FSMContext \<Rightarrow> result" where
  "process_time message c =
     (let c1 = update_data ''time'' (message_text message) c;
          c2 = set_state (Some EventForm_region) c1
      in Inr \<lparr>ctx = c2, answers = [answer msg_ask_region], append_row_calls = []\<rparr>)"

definition process_region :: "Message \<Rightarrow> FSMContext \<Rightarrow> result" where
  "process_region message c =
     (let c1 = update_data ''region'' (message_text message) c;
          c2 = set_state (Some EventForm_description) c1
      in Inr \<lparr>ctx = c2, answers = [answer msg_ask_description], append_row_calls = []\<rparr>)"

text \<open>\<^verbatim>\<open>len(None)\<close> raises \<^verbatim>\<open>TypeError\<close>, before anything is stored or sent.\<close>

definition process_description :: "Message \<Rightarrow> FSMContext \<Rightarrow> result" where
  "process_description message c =
     (case message_text message of
        PyNone \<Rightarrow> Inl (TypeError, c)
      | Str t \<Rightarrow>
          if length t > 300
          then Inr \<lparr>ctx = c, answers = [answer msg_too_long], append_row_calls = []\<rparr>
          else
            (let c1 = update_data ''description'' (Str t) c;
                 c2 = set_state (Some EventForm_participation) c1
             in Inr \<lparr>ctx = c2, answers = [answer msg_ask_participation],
                      append_row_calls = []\<rparr>))"

text \<open>
  The summary f-string. \<^verbatim>\<open>data['name']\<close> raises \<^verbatim>\<open>KeyError\<close> when the key is
  absent, hence the \<open>option\<close>: \<open>None\<close> when one of the six subscripts fails.
\<close>

definition summary :: "(string \<rightharpoonup> pyval) \<Rightarrow> ustring option" where
  "summary d =
     Option.bind (d ''name'') (\<lambda>v1.
     Option.bind (d ''date'') (\<lambda>v2.
     Option.bind (d ''time'') (\<lambda>v3.
     Option.bind (d ''region'') (\<lambda>v4.
     Option.bind (d ''description'') (\<lambda>v5.
     Option.bind (d ''participation'') (\<lambda>v6.
       Some (summary_head @ py_str v1 @ summary_date @ py_str v2 @ summary_time @ py_str v3 @
             summary_region @ py_str v4 @ summary_description @ py_str v5 @
             summary_participation @ py_str v6 @ summary_foot)))))))"

definition process_participation :: "Message \<Rightarrow> FSMContext \<Rightarrow> result" where
  "process_participation message c =
     (let c1 = update_data ''participation'' (message_text message) c
      in case summary (data c1) of
           None \<Rightarrow> Inl (KeyError, c1)
         | Some s \<Rightarrow>
             Inr \<lparr>ctx = set_state (Some EventForm_confirm) c1,
                  answers = [\<lparr>answer_text = s, parse_mode = Some ''Markdown''\<rparr>],
                  append_row_calls = []\<rparr>)"

text \<open>
  The two tables of \<^verbatim>\<open>handle_confirmation\<close>. A Python dictionary is iterated in
  the order its entries were written, so \<^verbatim>\<open>field_map\<close> is a list in that order.
\<close>

definition field_map :: "(ustring \<times> string) list" where
  "field_map =
     [(kw_name, ''name''), (kw_date, ''date''), (kw_time, ''time''), (kw_region, ''region''),
      (kw_description, ''description''), (kw_participation, ''participation'')]"

definition prompts :: "string \<rightharpoonup> ustring" where
  "prompts =
     map_of [(''name'', prompt_name), (''date'', prompt_date), (''time'', prompt_time),
             (''region'', prompt_region), (''description'', prompt_description),
             (''participation'', prompt_participation)]"

text \<open>\<^verbatim>\<open>getattr(EventForm, val)\<close>, on the states the class declares.\<close>

definition EventForm_getattr :: "string \<rightharpoonup> EventForm" where
  "EventForm_getattr =
     map_of [(''name'', EventForm_name), (''date'', EventForm_date), (''time'', EventForm_time),
             (''region'', EventForm_region), (''description'', EventForm_description),
             (''participation'', EventForm_participation), (''confirm'', EventForm_confirm)]"

text \<open>
  The \<^verbatim>\<open>for key, val in field_map.items()\<close> loop, over the entries still to visit.
  The first keyword found in the text sets the state, then sends the prompt, and returns;
  when the loop runs out, the message after the loop is sent.
\<close>

fun edit_loop :: "(ustring \<times> string) list \<Rightarrow> ustring \<Rightarrow> FSMContext \<Rightarrow> result" where
  "edit_loop [] text c =
     Inr \<lparr>ctx = c, answers = [answer msg_not_understood], append_row_calls = []\<rparr>"
| "edit_loop ((key, val) # rest) text c =
     (if py_in key text
      then (case EventForm_getattr val of
              None \<Rightarrow> Inl (AttributeError, c)
            | Some s \<Rightarrow>
                (let c1 = set_state (Some s) c
                 in case prompts val of
                      None \<Rightarrow> Inl (KeyError, c1)
                    | Some p \<Rightarrow> Inr \<lparr>ctx = c1, answers = [answer p], append_row_calls = []\<rparr>))
      else edit_loop rest text c)"

text \<open>The row of \<^verbatim>\<open>handle_confirmation\<close>: six \<^verbatim>\<open>data.get\<close> and the time stamp.\<close>

definition row_of :: "(string \<rightharpoonup> pyval) \<Rightarrow> datetime \<Rightarrow> pyval list" where
  "row_of d dt =
     [dict_get d ''name'' (Str []), dict_get d ''date'' (Str []), dict_get d ''time'' (Str []),
      dict_get d ''region'' (Str []), dict_get d ''description'' (Str []),
      dict_get d ''participation'' (Str []), Str (strftime dt)]"

text \<open>
  \<^verbatim>\<open>None.strip()\<close> raises \<^verbatim>\<open>AttributeError\<close> on the first line. In the submit
  branch the \<^verbatim>\<open>try\<close> catches the failure of \<^verbatim>\<open>append_row\<close> and sends the other
  acknowledgement; \<^verbatim>\<open>state.clear()\<close> follows the \<^verbatim>\<open>try\<close> on both paths.
\<close>

definition handle_confirmation :: "env \<Rightarrow> Message \<Rightarrow> FSMContext \<Rightarrow> result" where
  "handle_confirmation e message c =
     (case message_text message of
        PyNone \<Rightarrow> Inl (AttributeError, c)
      | Str t \<Rightarrow>
          (let text = str_lower e (str_strip t) in
           if py_in kw_submit text then
             (let row = row_of (data c) (datetime_now e);
                  sent = (if sheet_append_row e row then [answer msg_saved]
                          else [answer msg_not_saved])
              in Inr \<lparr>ctx = clear c, answers = sent, append_row_calls = [row]\<rparr>)
           else if py_in kw_edit text then edit_loop field_map text c
           else Inr \<lparr>ctx = c, answers = [answer msg_help], append_row_calls = []\<rparr>))"

text \<open>
  The router, for a message that is not the start command: the message goes to the
  handler registered for the session's state. No handler is registered for a session
  without state, so the message is dropped there. The start command goes to
  \<^verbatim>\<open>cmd_start\<close>, which is registered first, in every state.
\<close>

definition step :: "env \<Rightarrow> Message \<Rightarrow> FSMContext \<Rightarrow> result" where
  "step e message c =
     (case state c of
        None \<Rightarrow> Inr \<lparr>ctx = c, answers = [], append_row_calls = []\<rparr>
      | Some EventForm_name \<Rightarrow> process_name message c
      | Some EventForm_date \<Rightarrow> process_date message c
      | Some EventForm_time \<Rightarrow> process_time message c
      | Some EventForm_region \<Rightarrow> process_region message c
      | Some EventForm_description \<Rightarrow> process_description message c
      | Some EventForm_participation \<Rightarrow> process_participation message c
      | Some EventForm_confirm \<Rightarrow> handle_confirmation e message c)"

section \<open>Sessions that can occur\<close>

text \<open>
  A session starts without state and without data, and changes only when a handler runs:
  \<^verbatim>\<open>cmd_start\<close> on the start command, otherwise the handler of the current state. A
  handler that raises leaves the session as it was at the \<^verbatim>\<open>raise\<close>.
\<close>

definition fresh :: FSMContext where
  "fresh = \<lparr>state = None, data = Map.empty\<rparr>"

inductive reachable :: "FSMContext \<Rightarrow> bool" where
  reachable_fresh: "reachable fresh"
| reachable_start: "reachable c \<Longrightarrow> cmd_start message c = Inr r \<Longrightarrow> reachable (ctx r)"
| reachable_step: "reachable c \<Longrightarrow> step e message c = Inr r \<Longrightarrow> reachable (ctx r)"
| reachable_raise: "reachable c \<Longrightarrow> step e message c = Inl (x, c') \<Longrightarrow> reachable c'"

text \<open>The keys that the questions asked before a state have stored.\<close>

fun asked_before :: "EventForm \<Rightarrow> string list" where
  "asked_before EventForm_name = []"
| "asked_before EventForm_date = [''name'']"
| "asked_before EventForm_time = [''name'', ''date'']"
| "asked_before EventForm_region = [''name'', ''date'', ''time'']"
| "asked_before EventForm_description = [''name'', ''date'', ''time'', ''region'']"
| "asked_before EventForm_participation =
     [''name'', ''date'', ''time'', ''region'', ''description'']"
| "asked_before EventForm_confirm =
     [''name'', ''date'', ''time'', ''region'', ''description'', ''participation'']"

definition answered :: "FSMContext \<Rightarrow> bool" where
  "answered c =
     (case state c of
        None \<Rightarrow> True
      | Some s \<Rightarrow> list_all (\<lambda>k. data c k \<noteq> None) (asked_before s))"

text \<open>The value stored under a key occurs in a text as it is.\<close>

definition shows_field :: "(string \<rightharpoonup> pyval) \<Rightarrow> ustring \<Rightarrow> string \<Rightarrow> bool" where
  "shows_field d s k = (case d k of None \<Rightarrow> False | Some v \<Rightarrow> py_in (py_str v) s)"

section \<open>The specification's reading of the tables\<close>

text \<open>
  The edit table as the specification describes it: one list of keyword, collecting state
  and entry prompt, scanned in order. \<^verbatim>\<open>handle_confirmation\<close> has it as two
  dictionaries and a \<^verbatim>\<open>getattr\<close>.
\<close>

definition edit_table :: "(ustring \<times> EventForm \<times> ustring) list" where
  "edit_table =
     [(kw_name, EventForm_name, prompt_name),
      (kw_date, EventForm_date, prompt_date),
      (kw_time, EventForm_time, prompt_time),
      (kw_region, EventForm_region, prompt_region),
      (kw_description, EventForm_description, prompt_description),
      (kw_participation, EventForm_participation, prompt_participation)]"

definition first_keyword :: "ustring \<Rightarrow> (ustring \<times> EventForm \<times> ustring) option" where
  "first_keyword text = find (\<lambda>(key, s, p). py_in key text) edit_table"

text \<open>The order of the questions.\<close>

fun successor :: "EventForm \<Rightarrow> EventForm option" where
  "successor EventForm_name = Some EventForm_date"
| "successor EventForm_date = Some EventForm_time"
| "successor EventForm_time = Some EventForm_region"
| "successor EventForm_region = Some EventForm_description"
| "successor EventForm_description = Some EventForm_participation"
| "successor EventForm_participation = Some EventForm_confirm"
| "successor EventForm_confirm = None"

text \<open>
  The moves the specification lists: one place forward in the order, a jump from the
  confirmation back into a collecting state, and the description staying where it is.
\<close>

definition listed_move :: "EventForm option \<Rightarrow> EventForm option \<Rightarrow> bool" where
  "listed_move s s' =
     (case (s, s') of
        (Some a, Some b) \<Rightarrow>
          successor a = Some b \<or>
          (a = EventForm_confirm \<and> b \<in> set (map (fst \<circ> snd) edit_table)) \<or>
          (a = EventForm_description \<and> b = EventForm_description)
      | _ \<Rightarrow> False)"

text \<open>
  The moves the handlers make besides: the confirmation staying where it is, the
  confirmation closing the form, and a session without state staying without.
\<close>

definition move :: "EventForm option \<Rightarrow> EventForm option \<Rightarrow> bool" where
  "move s s' \<longleftrightarrow>
     listed_move s s' \<or>
     (s = Some EventForm_confirm \<and> s' = Some EventForm_confirm) \<or>
     (s = Some EventForm_confirm \<and> s' = None) \<or>
     (s = None \<and> s' = None)"

definition steps :: "EventForm option list" where
  "steps =
     [None, Some EventForm_name, Some EventForm_date, Some EventForm_time,
      Some EventForm_region, Some EventForm_description, Some EventForm_participation,
      Some EventForm_confirm]"

text \<open>
  A reading of the clock as \<^verbatim>\<open>datetime\<close> can hold it, with a year of four digits.
\<close>

definition clock_ok :: "datetime \<Rightarrow> bool" where
  "clock_ok dt \<longleftrightarrow>
     1000 \<le> year dt \<and> year dt \<le> 9999 \<and> 1 \<le> month dt \<and> month dt \<le> 12 \<and>
     1 \<le> day dt \<and> day dt \<le> 31 \<and> hour dt < 24 \<and> minute dt < 60"

section \<open>A worked conversation\<close>

text \<open>
  The lower-casing used in the examples: Python's on Basic Latin and on the Cyrillic
  capitals U+0400 to U+042F. Other code points are left as they are, which is not
  \<^verbatim>\<open>str.lower\<close> in general; only the examples use it.
\<close>

definition lower_cp :: "nat \<Rightarrow> nat" where
  "lower_cp c =
     (if (65 \<le> c \<and> c \<le> 90) \<or> (1040 \<le> c \<and> c \<le> 1071) then c + 32
      else if 1024 \<le> c \<and> c \<le> 1039 then c + 80
      else c)"

definition lower_basic :: "ustring \<Rightarrow> ustring" where
  "lower_basic s = map lower_cp s"

definition example_env :: "bool \<Rightarrow> env" where
  "example_env ok =
     \<lparr>str_lower = lower_basic, sheet_append_row = (\<lambda>row. ok),
      datetime_now = \<lparr>year = 2026, month = 11, day = 4, hour = 9, minute = 5\<rparr>\<rparr>"

text \<open>
  The answers of the specification's scenario: EventX, 01.01.2030, 10:00, CityY, Desc
  and link.
\<close>

definition example_five :: "string \<rightharpoonup> pyval" where
  "example_five =
     [''name'' \<mapsto> Str [69, 118, 101, 110, 116, 88],
      ''date'' \<mapsto> Str [48, 49, 46, 48, 49, 46, 50, 48, 51, 48],
      ''time'' \<mapsto> Str [49, 48, 58, 48, 48],
      ''region'' \<mapsto> Str [67, 105, 116, 121, 89],
      ''description'' \<mapsto> Str [68, 101, 115, 99]]"

definition example_data :: "string \<rightharpoonup> pyval" where
  "example_data = example_five(''participation'' \<mapsto> Str [108, 105, 110, 107])"

definition example_participation :: FSMContext where
  "example_participation = \<lparr>state = Some EventForm_participation, data = example_five\<rparr>"

definition example_confirm :: FSMContext where
  "example_confirm = \<lparr>state = Some EventForm_confirm, data = example_data\<rparr>"

definition text_message :: "ustring \<Rightarrow> Message" where
  "text_message t = \<lparr>message_text = Str t\<rparr>"

text \<open>
  Messages of the examples, in code points. In the order of the definitions: the submit
  token alone; the submit token with a capital first letter; the edit token alone; the edit token with the keyword of the region; with
  the keywords of the region and then of the date; with the keywords of the participation
  and then of the name; the submit token, the edit token and the keyword of the region;
  and the Latin letters abc.
\<close>

definition say_submit :: ustring where
  "say_submit = [1086, 1090, 1087, 1088, 1072, 1074, 1080, 1090, 1100]"

definition say_submit_capital :: ustring where
  "say_submit_capital = [1054, 1090, 1087, 1088, 1072, 1074, 1080, 1090, 1100]"

definition say_edit :: ustring where
  "say_edit = [1080, 1079, 1084, 1077, 1085, 1080, 1090, 1100]"

definition say_edit_region :: ustring where
  "say_edit_region =
     [1080, 1079, 1084, 1077, 1085, 1080, 1090, 1100, 32, 1088, 1077, 1075, 1080, 1086, 1085]"

definition say_edit_region_date :: ustring where
  "say_edit_region_date =
     [1080, 1079, 1084, 1077, 1085, 1080, 1090, 1100, 32, 1088, 1077, 1075, 1080, 1086, 1085,
      32, 1076, 1072, 1090, 1072]"

definition say_edit_participation_name :: ustring where
  "say_edit_participation_name =
     [1080, 1079, 1084, 1077, 1085, 1080, 1090, 1100, 32, 1091, 1095, 1072, 1089, 1090, 1080,
      1077, 32, 1085, 1072, 1079, 1074, 1072, 1085, 1080, 1077]"

definition say_submit_edit_region :: ustring where
  "say_submit_edit_region =
     [1086, 1090, 1087, 1088, 1072, 1074, 1080, 1090, 1100, 32, 1080, 1079, 1084, 1077, 1085,
      1080, 1090, 1100, 32, 1088, 1077, 1075, 1080, 1086, 1085]"

definition say_abc :: ustring where
  "say_abc = [97, 98, 99]"

section \<open>Auxiliary facts\<close>

subsection \<open>Substrings\<close>

text \<open>\<open>py_in\<close> is the contiguous-sublist relation of the library.\<close>

lemma py_in_sublist: "py_in sub s \<longleftrightarrow> sublist sub s"
  by (induction s) (auto simp: sublist_Cons_right)

lemma py_in_append_mid: "py_in v (a @ v @ b)"
  by (simp add: py_in_sublist)

subsection \<open>The time stamp\<close>

lemma dec_digit: "n < 10 \<Longrightarrow> dec n = [48 + n]"
  by (simp add: dec.simps)

lemma dec_two: "10 \<le> n \<Longrightarrow> n < 100 \<Longrightarrow> dec n = [48 + n div 10, 48 + n mod 10]"
  by (subst dec.simps) (simp add: dec_digit)

lemma pad2_two: "n < 100 \<Longrightarrow> pad2 n = [48 + n div 10, 48 + n mod 10]"
  by (cases "n < 10") (simp_all add: pad2_def dec_digit dec_two)

lemma dec_three:
  "100 \<le> n \<Longrightarrow> n < 1000 \<Longrightarrow> dec n = [48 + n div 100, 48 + n div 10 mod 10, 48 + n mod 10]"
  by (subst dec.simps) (simp add: dec_two div_mult2_eq[symmetric])

lemma dec_four:
  "1000 \<le> n \<Longrightarrow> n < 10000 \<Longrightarrow>
   dec n = [48 + n div 1000, 48 + n div 100 mod 10, 48 + n div 10 mod 10, 48 + n mod 10]"
  by (subst dec.simps) (simp add: dec_three div_mult2_eq[symmetric])

lemma is_digit_div: "n < 100 \<Longrightarrow> is_digit (48 + n div 10)"
  by (simp add: is_digit_def)

lemma is_digit_mod: "is_digit (48 + n mod 10)"
  by (simp add: is_digit_def)

lemma is_digit_div1000: "n < 10000 \<Longrightarrow> is_digit (48 + n div 1000)"
  by (simp add: is_digit_def)

text \<open>
  The stamp digit by digit: two digits of the day, a full stop, two digits of the month,
  a full stop, four digits of the year, a space, two digits of the hour, a colon and two
  digits of the minute.
\<close>

lemma strftime_digits:
  assumes "clock_ok dt"
  shows "strftime dt =
     [48 + day dt div 10, 48 + day dt mod 10, 46,
      48 + month dt div 10, 48 + month dt mod 10, 46,
      48 + year dt div 1000, 48 + year dt div 100 mod 10, 48 + year dt div 10 mod 10,
      48 + year dt mod 10, 32,
      48 + hour dt div 10, 48 + hour dt mod 10, 58,
      48 + minute dt div 10, 48 + minute dt mod 10]"
  using assms by (simp add: clock_ok_def strftime_def pad2_two dec_four)

lemma strftime_shape: "clock_ok dt \<Longrightarrow> is_ddmmyyyy_hhmm (strftime dt)"
  by (simp add: clock_ok_def strftime_def pad2_two dec_four is_digit_div is_digit_mod
      is_digit_div1000)

subsection \<open>The edit loop\<close>

text \<open>
  On the table of \<^verbatim>\<open>handle_confirmation\<close> the loop never raises, and does what a
  scan of the specification's table does.
\<close>

lemma edit_loop_field_map:
  "edit_loop field_map text c =
     (case first_keyword text of
        None \<Rightarrow> Inr \<lparr>ctx = c, answers = [answer msg_not_understood], append_row_calls = []\<rparr>
      | Some (key, s, p) \<Rightarrow>
          Inr \<lparr>ctx = c\<lparr>state := Some s\<rparr>, answers = [answer p], append_row_calls = []\<rparr>)"
  by (simp add: field_map_def first_keyword_def edit_table_def EventForm_getattr_def
      prompts_def set_state_def)

subsection \<open>What a session has stored\<close>

text \<open>
  In every session that can occur, the answers to the questions asked before the current
  state are stored.
\<close>

lemma answered_weaken:
  "list_all (\<lambda>k. d k \<noteq> None) (asked_before EventForm_confirm) \<Longrightarrow>
   list_all (\<lambda>k. d k \<noteq> None) (asked_before s)"
  by (cases s) simp_all

lemma handle_confirmation_answered:
  assumes "answered c" and "state c = Some EventForm_confirm"
  shows "handle_confirmation e message c = Inr r \<Longrightarrow> answered (ctx r)"
    and "handle_confirmation e message c = Inl (x, c') \<Longrightarrow> answered c'"
proof -
  have six: "list_all (\<lambda>k. data c k \<noteq> None) (asked_before EventForm_confirm)"
    using assms by (simp add: answered_def)
  have jump: "answered (c\<lparr>state := Some s\<rparr>)" for s
    using answered_weaken [OF six, of s] by (simp add: answered_def)
  show "handle_confirmation e message c = Inr r \<Longrightarrow> answered (ctx r)"
    using assms(1) jump
    by (auto simp: handle_confirmation_def edit_loop_field_map answered_def clear_def Let_def
        split: pyval.splits if_splits option.splits)
  show "handle_confirmation e message c = Inl (x, c') \<Longrightarrow> answered c'"
    using assms(1)
    by (auto simp: handle_confirmation_def edit_loop_field_map Let_def
        split: pyval.splits if_splits option.splits)
qed

lemma step_answered:
  assumes "answered c"
  shows "step e message c = Inr r \<Longrightarrow> answered (ctx r)"
    and "step e message c = Inl (x, c') \<Longrightarrow> answered c'"
proof -
  show "step e message c = Inr r \<Longrightarrow> answered (ctx r)"
  proof (cases "state c")
    case None
    then show "step e message c = Inr r \<Longrightarrow> answered (ctx r)"
      using assms by (auto simp: step_def)
  next
    case (Some s)
    then show "step e message c = Inr r \<Longrightarrow> answered (ctx r)"
      using assms handle_confirmation_answered(1) [of c e message r]
      by (cases s)
        (auto simp: step_def answered_def process_name_def process_date_def process_time_def
          process_region_def process_description_def process_participation_def
          update_data_def set_state_def Let_def
          split: pyval.splits if_splits option.splits)
  qed
  show "step e message c = Inl (x, c') \<Longrightarrow> answered c'"
  proof (cases "state c")
    case None
    then show "step e message c = Inl (x, c') \<Longrightarrow> answered c'"
      by (auto simp: step_def)
  next
    case (Some s)
    then show "step e message c = Inl (x, c') \<Longrightarrow> answered c'"
      using assms handle_confirmation_answered(2) [of c e message x c']
      by (cases s)
        (auto simp: step_def answered_def process_name_def process_date_def process_time_def
          process_region_def process_description_def process_participation_def
          update_data_def set_state_def Let_def
          split: pyval.splits if_splits option.splits)
  qed
qed

lemma reachable_answered: "reachable c \<Longrightarrow> answered c"
proof (induction rule: reachable.induct)
  case reachable_fresh
  show ?case by (simp add: answered_def fresh_def)
next
  case (reachable_start c message r)
  then show ?case
    by (auto simp: cmd_start_def answered_def clear_def set_state_def)
next
  case (reachable_step c e message r)
  then show ?case using step_answered(1) by blast
next
  case (reachable_raise c e message x c')
  then show ?case using step_answered(2) by blast
qed

subsection \<open>The text of the summary\<close>

lemma summary_shows:
  assumes "summary d = Some s" and "k \<in> set (asked_before EventForm_confirm)"
  shows "shows_field d s k"
proof -
  have mid: "py_in v (a @ v @ b)" for a v b :: ustring
    by (rule py_in_append_mid)
  have fin: "py_in v (a @ v)" for a v :: ustring
    using mid [of v a "[]"] by simp
  from assms(1) obtain v1 v2 v3 v4 v5 v6 where
    d: "d ''name'' = Some v1" "d ''date'' = Some v2" "d ''time'' = Some v3"
       "d ''region'' = Some v4" "d ''description'' = Some v5" "d ''participation'' = Some v6"
    and s: "s = summary_head @ py_str v1 @ summary_date @ py_str v2 @ summary_time @ py_str v3 @
             summary_region @ py_str v4 @ summary_description @ py_str v5 @
             summary_participation @ py_str v6 @ summary_foot"
    by (auto simp: summary_def split: bind_splits)
  have 1: "py_in (py_str v1) s"
    unfolding s by (rule mid)
  have 2: "py_in (py_str v2) s"
    unfolding s using mid [of "py_str v2" "summary_head @ py_str v1 @ summary_date"] by simp
  have 3: "py_in (py_str v3) s"
    unfolding s
    using mid [of "py_str v3" "summary_head @ py_str v1 @ summary_date @ py_str v2 @ summary_time"]
    by simp
  have 4: "py_in (py_str v4) s"
    unfolding s
    using mid [of "py_str v4" "summary_head @ py_str v1 @ summary_date @ py_str v2 @ summary_time @
        py_str v3 @ summary_region"]
    by simp
  have 5: "py_in (py_str v5) s"
    unfolding s
    using mid [of "py_str v5" "summary_head @ py_str v1 @ summary_date @ py_str v2 @ summary_time @
        py_str v3 @ summary_region @ py_str v4 @ summary_description"]
    by simp
  have 6: "py_in (py_str v6) s"
    unfolding s
    using mid [of "py_str v6" "summary_head @ py_str v1 @ summary_date @ py_str v2 @ summary_time @
        py_str v3 @ summary_region @ py_str v4 @ summary_description @ py_str v5 @
        summary_participation"]
    by simp
  from assms(2) d 1 2 3 4 5 6 show ?thesis
    by (auto simp: shows_field_def)
qed

lemma summary_defined:
  assumes "list_all (\<lambda>k. d k \<noteq> None) (asked_before EventForm_confirm)"
  shows "\<exists>s. summary d = Some s"
  using assms by (auto simp: summary_def)

subsection \<open>The confirmation handler by cases\<close>

text \<open>
  The three branches of \<^verbatim>\<open>handle_confirmation\<close> on a message that carries text,
  with the loop replaced by the scan of the specification's table.
\<close>

lemma confirmation_cases:
  assumes "state c = Some EventForm_confirm"
    and "message_text message = Str t"
    and "text = str_lower e (str_strip t)"
    and "row = row_of (data c) (datetime_now e)"
  shows "step e message c =
     (if py_in kw_submit text then
        Inr \<lparr>ctx = c\<lparr>state := None, data := Map.empty\<rparr>,
             answers = [answer (if sheet_append_row e row then msg_saved else msg_not_saved)],
             append_row_calls = [row]\<rparr>
      else if py_in kw_edit text then
        (case first_keyword text of
           None \<Rightarrow> Inr \<lparr>ctx = c, answers = [answer msg_not_understood], append_row_calls = []\<rparr>
         | Some (key, s, p) \<Rightarrow>
             Inr \<lparr>ctx = c\<lparr>state := Some s\<rparr>, answers = [answer p], append_row_calls = []\<rparr>)
      else Inr \<lparr>ctx = c, answers = [answer msg_help], append_row_calls = []\<rparr>)"
  using assms
  by (simp add: step_def handle_confirmation_def edit_loop_field_map clear_def)

lemma first_keyword_Some:
  assumes "first_keyword text = Some (key, s, p)"
  shows "(key, s, p) \<in> set edit_table" and "py_in key text"
    and "s \<in> set (map (fst \<circ> snd) edit_table)"
proof -
  from assms obtain i where i: "i < length edit_table" "edit_table ! i = (key, s, p)"
    and k: "py_in key text"
    unfolding first_keyword_def by (auto simp: find_Some_iff)
  from i show m: "(key, s, p) \<in> set edit_table"
    by (metis nth_mem)
  from k show "py_in key text" .
  from m show "s \<in> set (map (fst \<circ> snd) edit_table)"
    by force
qed

lemma first_keyword_index:
  assumes "i < length edit_table"
    and "py_in (fst (edit_table ! i)) text"
    and "\<forall>j<i. \<not> py_in (fst (edit_table ! j)) text"
  shows "first_keyword text = Some (edit_table ! i)"
  unfolding first_keyword_def find_Some_iff
  using assms by (intro exI [of _ i]) (auto simp: case_prod_beta)


subsection \<open>The worked conversation, evaluated\<close>

lemma example_text:
  "message_text (text_message t) = Str t"
  "state example_confirm = Some EventForm_confirm"
  "data example_confirm = example_data"
  "str_lower (example_env ok) = lower_basic"
  by (simp_all add: text_message_def example_confirm_def example_env_def)

lemma lower_strip_examples:
  "lower_basic (str_strip say_submit) = say_submit"
  "lower_basic (str_strip say_edit) = say_edit"
  "lower_basic (str_strip say_edit_region) = say_edit_region"
  "lower_basic (str_strip say_edit_region_date) = say_edit_region_date"
  "lower_basic (str_strip say_edit_participation_name) = say_edit_participation_name"
  "lower_basic (str_strip say_submit_edit_region) = say_submit_edit_region"
  "lower_basic (str_strip say_abc) = say_abc"
  by (simp_all add: lower_basic_def lower_cp_def str_strip_def isspace_def say_submit_def
      say_edit_def say_edit_region_def say_edit_region_date_def
      say_edit_participation_name_def say_submit_edit_region_def say_abc_def)

lemma first_keyword_examples:
  "first_keyword say_edit_region = Some (kw_region, EventForm_region, prompt_region)"
  "first_keyword say_edit_region_date = Some (kw_date, EventForm_date, prompt_date)"
  "first_keyword say_edit_participation_name = Some (kw_name, EventForm_name, prompt_name)"
  "first_keyword say_edit = None"
  "first_keyword say_abc = None"
  by (simp_all add: first_keyword_def edit_table_def kw_name_def kw_date_def kw_time_def
      kw_region_def kw_description_def kw_participation_def say_edit_def say_abc_def
      say_edit_region_def say_edit_region_date_def say_edit_participation_name_def)

lemma token_examples:
  "py_in kw_submit say_submit"
  "py_in kw_submit say_submit_edit_region"
  "py_in kw_edit say_submit_edit_region"
  "py_in kw_region say_submit_edit_region"
  "\<not> py_in kw_submit say_edit"
  "\<not> py_in kw_submit say_abc"
  "\<not> py_in kw_submit say_edit_region"
  "\<not> py_in kw_submit say_edit_region_date"
  "\<not> py_in kw_submit say_edit_participation_name"
  "py_in kw_edit say_edit"
  "\<not> py_in kw_edit say_abc"
  "py_in kw_edit say_edit_region"
  "py_in kw_edit say_edit_region_date"
  "py_in kw_edit say_edit_participation_name"
  "py_in kw_region say_edit_region"
  "py_in kw_region say_edit_region_date"
  "py_in kw_date say_edit_region_date"
  "py_in kw_name say_edit_participation_name"
  "py_in kw_participation say_edit_participation_name"
  by (simp_all add: kw_submit_def kw_edit_def kw_region_def kw_date_def kw_name_def
      kw_participation_def say_submit_def say_edit_def say_abc_def say_edit_region_def
      say_edit_region_date_def say_edit_participation_name_def say_submit_edit_region_def)

lemma reachable_example_participation: "reachable example_participation"
proof -
  let ?e = "example_env True"
  let ?n = "Str [69, 118, 101, 110, 116, 88]"
  let ?d = "Str [48, 49, 46, 48, 49, 46, 50, 48, 51, 48]"
  let ?t = "Str [49, 48, 58, 48, 48]"
  let ?r = "Str [67, 105, 116, 121, 89]"
  let ?x = "Str [68, 101, 115, 99]"
  have "reachable \<lparr>state = Some EventForm_name, data = Map.empty\<rparr>"
    using reachable_start [OF reachable_fresh, of "\<lparr>message_text = Str []\<rparr>"]
    by (simp add: cmd_start_def fresh_def clear_def set_state_def)
  from reachable_step [OF this, of ?e "\<lparr>message_text = ?n\<rparr>"]
  have "reachable \<lparr>state = Some EventForm_date, data = [''name'' \<mapsto> ?n]\<rparr>"
    by (simp add: step_def process_name_def update_data_def set_state_def)
  from reachable_step [OF this, of ?e "\<lparr>message_text = ?d\<rparr>"]
  have "reachable \<lparr>state = Some EventForm_time, data = [''name'' \<mapsto> ?n, ''date'' \<mapsto> ?d]\<rparr>"
    by (simp add: step_def process_date_def update_data_def set_state_def)
  from reachable_step [OF this, of ?e "\<lparr>message_text = ?t\<rparr>"]
  have "reachable \<lparr>state = Some EventForm_region,
      data = [''name'' \<mapsto> ?n, ''date'' \<mapsto> ?d, ''time'' \<mapsto> ?t]\<rparr>"
    by (simp add: step_def process_time_def update_data_def set_state_def)
  from reachable_step [OF this, of ?e "\<lparr>message_text = ?r\<rparr>"]
  have "reachable \<lparr>state = Some EventForm_description,
      data = [''name'' \<mapsto> ?n, ''date'' \<mapsto> ?d, ''time'' \<mapsto> ?t, ''region'' \<mapsto> ?r]\<rparr>"
    by (simp add: step_def process_region_def update_data_def set_state_def)
  from reachable_step [OF this, of ?e "\<lparr>message_text = ?x\<rparr>"]
  have "reachable \<lparr>state = Some EventForm_participation,
      data = [''name'' \<mapsto> ?n, ''date'' \<mapsto> ?d, ''time'' \<mapsto> ?t, ''region'' \<mapsto> ?r,
              ''description'' \<mapsto> ?x]\<rparr>"
    by (simp add: step_def process_description_def update_data_def set_state_def)
  then show ?thesis
    by (simp add: example_participation_def example_five_def)
qed

subsection \<open>Moves of one step\<close>

lemma collecting_step_moves:
  assumes "state c = Some s" and "s \<noteq> EventForm_confirm"
  shows "case step e message c of
           Inr r \<Rightarrow> listed_move (state c) (state (ctx r))
         | Inl (x, c') \<Rightarrow> state c' = state c"
  using assms
  by (cases s)
    (simp_all add: step_def process_name_def process_date_def process_time_def
      process_region_def process_description_def process_participation_def
      update_data_def set_state_def listed_move_def Let_def
      split: pyval.splits option.splits)

lemma confirm_step_moves:
  assumes "state c = Some EventForm_confirm"
  shows "case step e message c of
           Inr r \<Rightarrow> move (state c) (state (ctx r))
         | Inl (x, c') \<Rightarrow> state c' = state c"
proof (cases "message_text message")
  case PyNone
  with assms show ?thesis
    by (simp add: step_def handle_confirmation_def)
next
  case (Str t)
  show ?thesis
  proof (cases "first_keyword (str_lower e (str_strip t))")
    case None
    with confirmation_cases [OF assms Str refl refl, of e] assms show ?thesis
      by (simp add: move_def)
  next
    case (Some a)
    obtain key s p where a: "a = (key, s, p)"
      by (cases a)
    from Some a first_keyword_Some(3) [of "str_lower e (str_strip t)" key s p]
    have "listed_move (Some EventForm_confirm) (Some s)"
      by (simp add: listed_move_def)
    with confirmation_cases [OF assms Str refl refl, of e] assms Some a show ?thesis
      by (simp add: move_def)
  qed
qed

subsection \<open>When a handler raises\<close>

text \<open>
  In a session that can occur, a message that carries text never makes a handler raise;
  a message without text does so in the description state and in the confirmation state,
  and nowhere else.
\<close>

lemma text_never_raises:
  assumes "reachable c" and "message_text message = Str t"
  shows "\<exists>r. step e message c = Inr r"
proof (cases "state c")
  case None
  then show ?thesis by (simp add: step_def)
next
  case (Some s)
  show ?thesis
  proof (cases s)
    case EventForm_participation
    have "answered c" using assms(1) by (rule reachable_answered)
    with Some EventForm_participation
    have "list_all (\<lambda>k. ((data c)(''participation'' \<mapsto> Str t)) k \<noteq> None)
        (asked_before EventForm_confirm)"
      by (simp add: answered_def)
    from summary_defined [OF this]
    obtain s' where "summary ((data c)(''participation'' \<mapsto> Str t)) = Some s'"
      by blast
    with Some EventForm_participation assms(2) show ?thesis
      by (simp add: step_def process_participation_def update_data_def)
  next
    case EventForm_confirm
    with Some confirmation_cases [OF _ assms(2) refl refl, of c e] show ?thesis
      by (auto split: option.splits)
  qed (use Some assms(2) in \<open>simp_all add: step_def process_name_def process_date_def
        process_time_def process_region_def process_description_def\<close>)
qed

lemma raises_only_without_text:
  assumes "reachable c" and "step e message c = Inl (x, c')"
  shows "message_text message = PyNone \<and> c' = c \<and>
         (state c = Some EventForm_description \<and> x = TypeError \<or>
          state c = Some EventForm_confirm \<and> x = AttributeError)"
proof (cases "message_text message")
  case (Str t)
  with text_never_raises [OF assms(1) Str, of e] assms(2) show ?thesis
    by simp
next
  case PyNone
  have a: "answered c" using assms(1) by (rule reachable_answered)
  show ?thesis
  proof (cases "state c")
    case None
    with assms(2) show ?thesis by (simp add: step_def)
  next
    case (Some s)
    show ?thesis
    proof (cases s)
      case EventForm_participation
      with a Some
      have "list_all (\<lambda>k. ((data c)(''participation'' \<mapsto> PyNone)) k \<noteq> None)
          (asked_before EventForm_confirm)"
        by (simp add: answered_def)
      from summary_defined [OF this]
      obtain s' where "summary ((data c)(''participation'' \<mapsto> PyNone)) = Some s'"
        by blast
      with Some EventForm_participation PyNone assms(2) show ?thesis
        by (simp add: step_def process_participation_def update_data_def)
    qed (use Some PyNone assms(2) in \<open>auto simp: step_def process_name_def process_date_def
          process_time_def process_region_def process_description_def
          handle_confirmation_def\<close>)
  qed
qed

section \<open>The start command\<close>

text \<open>
  C8. From any session, in any of the eight states and whatever it has stored, the start
  command leaves a session with no stored field in the state that collects the name, and
  sends one message, the greeting that asks for the event's name.
\<close>

theorem cmd_start_restarts:
  "cmd_start message c =
     Inr \<lparr>ctx = c\<lparr>state := Some EventForm_name, data := Map.empty\<rparr>,
          answers = [answer msg_welcome], append_row_calls = []\<rparr>"
  by (simp add: cmd_start_def clear_def set_state_def)

section \<open>The description\<close>

text \<open>
  C3. In the description state, a text of more than 300 characters is answered with the
  validation message and the session stays as it is, state and every stored field; a text
  of at most 300 characters is stored as it is under the key description, and the session
  moves on to the participation state.
\<close>

theorem description_length_check:
  assumes "state c = Some EventForm_description"
    and "message_text message = Str t"
  shows "step e message c =
           (if length t > 300
            then Inr \<lparr>ctx = c, answers = [answer msg_too_long], append_row_calls = []\<rparr>
            else Inr \<lparr>ctx = c\<lparr>state := Some EventForm_participation,
                               data := (data c)(''description'' \<mapsto> Str t)\<rparr>,
                      answers = [answer msg_ask_participation], append_row_calls = []\<rparr>)"
  using assms
  by (simp add: step_def process_description_def update_data_def set_state_def)

theorem description_length_check_witness:
  "step (example_env True) (text_message (replicate 301 97))
      \<lparr>state = Some EventForm_description, data = Map.empty\<rparr> =
     Inr \<lparr>ctx = \<lparr>state = Some EventForm_description, data = Map.empty\<rparr>,
          answers = [answer msg_too_long], append_row_calls = []\<rparr>
   \<and> step (example_env True) (text_message (replicate 300 97))
      \<lparr>state = Some EventForm_description, data = Map.empty\<rparr> =
     Inr \<lparr>ctx = \<lparr>state = Some EventForm_participation,
                 data = [''description'' \<mapsto> Str (replicate 300 97)]\<rparr>,
          answers = [answer msg_ask_participation], append_row_calls = []\<rparr>"
  using
    description_length_check
      [of "\<lparr>state = Some EventForm_description, data = Map.empty\<rparr>"
        "text_message (replicate 301 97)" "replicate 301 97" "example_env True"]
    description_length_check
      [of "\<lparr>state = Some EventForm_description, data = Map.empty\<rparr>"
        "text_message (replicate 300 97)" "replicate 300 97" "example_env True"]
  by (simp add: text_message_def)

section \<open>The summary\<close>

text \<open>
  C4. In the participation state of a session that can occur, a text is stored under the
  key participation, the state becomes the confirmation state, and the one answer, sent
  with the Markdown parse mode, is the summary: it contains the value stored under each
  of the six keys as it is, the text just received among them.
\<close>

theorem participation_shows_summary:
  assumes "reachable c"
    and "state c = Some EventForm_participation"
    and "message_text message = Str t"
    and "d = (data c)(''participation'' \<mapsto> Str t)"
  shows "\<exists>s. step e message c =
              Inr \<lparr>ctx = c\<lparr>state := Some EventForm_confirm, data := d\<rparr>,
                   answers = [\<lparr>answer_text = s, parse_mode = Some ''Markdown''\<rparr>],
                   append_row_calls = []\<rparr>
            \<and> summary d = Some s
            \<and> list_all (shows_field d s)
                 [''name'', ''date'', ''time'', ''region'', ''description'', ''participation'']
            \<and> py_in t s"
proof -
  have "answered c"
    using assms(1) by (rule reachable_answered)
  then have "list_all (\<lambda>k. d k \<noteq> None) (asked_before EventForm_confirm)"
    using assms(2,4) by (simp add: answered_def)
  then obtain s where s: "summary d = Some s"
    using summary_defined by blast
  have "step e message c =
      Inr \<lparr>ctx = c\<lparr>state := Some EventForm_confirm, data := d\<rparr>,
           answers = [\<lparr>answer_text = s, parse_mode = Some ''Markdown''\<rparr>],
           append_row_calls = []\<rparr>"
    using assms(2,3,4) s
    by (simp add: step_def process_participation_def update_data_def set_state_def)
  moreover have "list_all (shows_field d s)
      [''name'', ''date'', ''time'', ''region'', ''description'', ''participation'']"
    using summary_shows [OF s] by simp
  moreover have "py_in t s"
    using summary_shows [OF s, of "''participation''"] assms(4) by (simp add: shows_field_def)
  ultimately show ?thesis
    using s by blast
qed


text \<open>
  The scenario of the specification: after EventX, 01.01.2030, 10:00, CityY and Desc,
  the answer link is followed by the summary below, written out in code points: the
  heading, then one line for each field with its label and its value in the order name,
  date, time, region, description, participation, then the two lines on how to submit and
  how to edit.
\<close>

theorem participation_shows_summary_witness:
  "reachable example_participation
   \<and> state example_participation = Some EventForm_participation
   \<and> (\<exists>s. step (example_env True) (text_message [108, 105, 110, 107]) example_participation =
              Inr \<lparr>ctx = example_confirm,
                   answers = [\<lparr>answer_text = s, parse_mode = Some ''Markdown''\<rparr>],
                   append_row_calls = []\<rparr>
            \<and> s =
                [9989, 32, 1055, 1088, 1086, 1074, 1077, 1088, 1100, 1090, 1077, 32, 1080,
                 1085, 1092, 1086, 1088, 1084, 1072, 1094, 1080, 1102, 58, 10, 10, 42, 1053,
                 1072, 1079, 1074, 1072, 1085, 1080, 1077, 58, 42, 32, 69, 118, 101, 110, 116,
                 88, 10, 42, 1044, 1072, 1090, 1072, 58, 42, 32, 48, 49, 46, 48, 49, 46, 50,
                 48, 51, 48, 10, 42, 1042, 1088, 1077, 1084, 1103, 58, 42, 32, 49, 48, 58, 48,
                 48, 10, 42, 1056, 1077, 1075, 1080, 1086, 1085, 58, 42, 32, 67, 105, 116,
                 121, 89, 10, 42, 1054, 1087, 1080, 1089, 1072, 1085, 1080, 1077, 58, 42, 32,
                 68, 101, 115, 99, 10, 42, 1050, 1072, 1082, 32, 1087, 1088, 1080, 1085, 1103,
                 1090, 1100, 32, 1091, 1095, 1072, 1089, 1090, 1080, 1077, 58, 42, 32, 108,
                 105, 110, 107, 10, 10, 1045, 1089, 1083, 1080, 32, 1074, 1089, 1105, 32,
                 1074, 1077, 1088, 1085, 1086, 32, 8212, 32, 1085, 1072, 1087, 1080, 1096,
                 1080, 1090, 1077, 32, 42, 42, 1086, 1090, 1087, 1088, 1072, 1074, 1080, 1090,
                 1100, 42, 42, 46, 10, 1063, 1090, 1086, 1073, 1099, 32, 1080, 1079, 1084,
                 1077, 1085, 1080, 1090, 1100, 32, 8212, 32, 1085, 1072, 1087, 1080, 1096,
                 1080, 1090, 1077, 32, 171, 1080, 1079, 1084, 1077, 1085, 1080, 1090, 1100,
                 32, 91, 1087, 1086, 1083, 1077, 93, 187, 46]
            \<and> list_all (shows_field example_data s)
                 [''name'', ''date'', ''time'', ''region'', ''description'', ''participation''])"
proof -
  have s: "state example_participation = Some EventForm_participation"
    by (simp add: example_participation_def)
  have m: "message_text (text_message [108, 105, 110, 107]) = Str [108, 105, 110, 107]"
    by (simp add: text_message_def)
  have d: "example_data = (data example_participation)(''participation'' \<mapsto> Str [108, 105, 110, 107])"
    by (simp add: example_data_def example_participation_def)
  have c: "example_participation\<lparr>state := Some EventForm_confirm, data := example_data\<rparr> =
      example_confirm"
    by (simp add: example_participation_def example_confirm_def)
  have f: "summary example_data = Some
      [9989, 32, 1055, 1088, 1086, 1074, 1077, 1088, 1100, 1090, 1077, 32, 1080, 1085, 1092,
       1086, 1088, 1084, 1072, 1094, 1080, 1102, 58, 10, 10, 42, 1053, 1072, 1079, 1074, 1072,
       1085, 1080, 1077, 58, 42, 32, 69, 118, 101, 110, 116, 88, 10, 42, 1044, 1072, 1090,
       1072, 58, 42, 32, 48, 49, 46, 48, 49, 46, 50, 48, 51, 48, 10, 42, 1042, 1088, 1077,
       1084, 1103, 58, 42, 32, 49, 48, 58, 48, 48, 10, 42, 1056, 1077, 1075, 1080, 1086, 1085,
       58, 42, 32, 67, 105, 116, 121, 89, 10, 42, 1054, 1087, 1080, 1089, 1072, 1085, 1080,
       1077, 58, 42, 32, 68, 101, 115, 99, 10, 42, 1050, 1072, 1082, 32, 1087, 1088, 1080,
       1085, 1103, 1090, 1100, 32, 1091, 1095, 1072, 1089, 1090, 1080, 1077, 58, 42, 32, 108,
       105, 110, 107, 10, 10, 1045, 1089, 1083, 1080, 32, 1074, 1089, 1105, 32, 1074, 1077,
       1088, 1085, 1086, 32, 8212, 32, 1085, 1072, 1087, 1080, 1096, 1080, 1090, 1077, 32, 42,
       42, 1086, 1090, 1087, 1088, 1072, 1074, 1080, 1090, 1100, 42, 42, 46, 10, 1063, 1090,
       1086, 1073, 1099, 32, 1080, 1079, 1084, 1077, 1085, 1080, 1090, 1100, 32, 8212, 32,
       1085, 1072, 1087, 1080, 1096, 1080, 1090, 1077, 32, 171, 1080, 1079, 1084, 1077, 1085,
       1080, 1090, 1100, 32, 91, 1087, 1086, 1083, 1077, 93, 187, 46]"
    by (simp add: summary_def example_data_def example_five_def summary_head_def
        summary_date_def summary_time_def summary_region_def summary_description_def
        summary_participation_def summary_foot_def)
  from participation_shows_summary [OF reachable_example_participation s m d, of "example_env True"]
    reachable_example_participation s
  show ?thesis
    by (auto simp: c f)
qed

section \<open>Submission\<close>

text \<open>
  C1. In the confirmation state with the six fields stored, a message whose stripped and
  lower-cased text contains the submit token makes exactly one call of
  \<^verbatim>\<open>append_row\<close>, with the row of the six stored values in the order name, date,
  time, region, description, participation followed by the time stamp; the session is then
  without state and without data. For a clock reading with a year of four digits the time
  stamp is, digit by digit, the day, the month and the year of the reading separated by
  full stops, a space, and the hour and the minute separated by a colon: DD.MM.YYYY HH:MM.
\<close>

theorem submit_appends_one_row:
  assumes "state c = Some EventForm_confirm"
    and "data c ''name'' = Some v1" and "data c ''date'' = Some v2"
    and "data c ''time'' = Some v3" and "data c ''region'' = Some v4"
    and "data c ''description'' = Some v5" and "data c ''participation'' = Some v6"
    and "message_text message = Str t"
    and "py_in kw_submit (str_lower e (str_strip t))"
    and "dt = datetime_now e"
    and "clock_ok dt"
    and "stamp =
           [48 + day dt div 10, 48 + day dt mod 10, 46,
            48 + month dt div 10, 48 + month dt mod 10, 46,
            48 + year dt div 1000, 48 + year dt div 100 mod 10, 48 + year dt div 10 mod 10,
            48 + year dt mod 10, 32,
            48 + hour dt div 10, 48 + hour dt mod 10, 58,
            48 + minute dt div 10, 48 + minute dt mod 10]"
    and "row = [v1, v2, v3, v4, v5, v6, Str stamp]"
  shows "step e message c =
           Inr \<lparr>ctx = c\<lparr>state := None, data := Map.empty\<rparr>,
                answers = [answer (if sheet_append_row e row then msg_saved else msg_not_saved)],
                append_row_calls = [row]\<rparr>
         \<and> is_ddmmyyyy_hhmm stamp"
proof -
  have s: "strftime (datetime_now e) = stamp"
    using assms(10,11,12) strftime_digits [of dt] by simp
  have "is_ddmmyyyy_hhmm stamp"
    using assms(10,11) strftime_shape [of dt] s by simp
  moreover have "row_of (data c) (datetime_now e) = row"
    using assms(2-7,13) s by (simp add: row_of_def dict_get_def)
  ultimately show ?thesis
    using assms(1,8,9)
    by (simp add: step_def handle_confirmation_def clear_def)
qed

text \<open>
  The scenario of the specification, submitted at five past nine on the fourth of
  November 2026: the stamp is 04.11.2026 09:05.
\<close>

theorem submit_appends_one_row_witness:
  "state example_confirm = Some EventForm_confirm
   \<and> py_in kw_submit (str_lower (example_env True) (str_strip say_submit_capital))
   \<and> datetime_now (example_env True) =
       \<lparr>year = 2026, month = 11, day = 4, hour = 9, minute = 5\<rparr>
   \<and> clock_ok (datetime_now (example_env True))
   \<and> step (example_env True) (text_message say_submit_capital) example_confirm =
       Inr \<lparr>ctx = fresh, answers = [answer msg_saved],
            append_row_calls =
              [[Str [69, 118, 101, 110, 116, 88], Str [48, 49, 46, 48, 49, 46, 50, 48, 51, 48],
                Str [49, 48, 58, 48, 48], Str [67, 105, 116, 121, 89], Str [68, 101, 115, 99],
                Str [108, 105, 110, 107],
                Str [48, 52, 46, 49, 49, 46, 50, 48, 50, 54, 32, 48, 57, 58, 48, 53]]]\<rparr>
   \<and> is_ddmmyyyy_hhmm [48, 52, 46, 49, 49, 46, 50, 48, 50, 54, 32, 48, 57, 58, 48, 53]"
proof -
  let ?dt = "\<lparr>year = 2026, month = 11, day = 4, hour = 9, minute = 5\<rparr>"
  have d: "data example_confirm ''name'' = Some (Str [69, 118, 101, 110, 116, 88])"
    "data example_confirm ''date'' = Some (Str [48, 49, 46, 48, 49, 46, 50, 48, 51, 48])"
    "data example_confirm ''time'' = Some (Str [49, 48, 58, 48, 48])"
    "data example_confirm ''region'' = Some (Str [67, 105, 116, 121, 89])"
    "data example_confirm ''description'' = Some (Str [68, 101, 115, 99])"
    "data example_confirm ''participation'' = Some (Str [108, 105, 110, 107])"
    by (simp_all add: example_confirm_def example_data_def example_five_def)
  have k: "py_in kw_submit (str_lower (example_env True) (str_strip say_submit_capital))"
    by (simp add: example_env_def lower_basic_def lower_cp_def str_strip_def isspace_def
        kw_submit_def say_submit_capital_def)
  have t: "?dt = datetime_now (example_env True)"
    by (simp add: example_env_def)
  have n: "clock_ok ?dt"
    by (simp add: clock_ok_def)
  have a: "sheet_append_row (example_env True) row" for row
    by (simp add: example_env_def)
  from submit_appends_one_row [OF example_text(2) d example_text(1) k t n refl refl]
    example_text(2) k a
  show ?thesis
    by (simp add: t [symmetric] fresh_def example_confirm_def clock_ok_def is_digit_def)
qed

text \<open>
  C2. In the confirmation state, when the submit token is in the text and
  \<^verbatim>\<open>append_row\<close> raises, the one answer is the failure acknowledgement,
  \<^verbatim>\<open>append_row\<close> has been called once and not again, and the session is left without
  state and without data: the session that a successful call leaves, with the other
  acknowledgement.
\<close>

theorem failed_append_still_clears:
  assumes "state c = Some EventForm_confirm"
    and "message_text message = Str t"
    and "py_in kw_submit (str_lower e (str_strip t))"
    and "row = row_of (data c) (datetime_now e)"
    and "\<not> sheet_append_row e row"
  shows "step e message c =
           Inr \<lparr>ctx = c\<lparr>state := None, data := Map.empty\<rparr>,
                answers = [answer msg_not_saved], append_row_calls = [row]\<rparr>
         \<and> step (e\<lparr>sheet_append_row := \<lambda>r. True\<rparr>) message c =
           Inr \<lparr>ctx = c\<lparr>state := None, data := Map.empty\<rparr>,
                answers = [answer msg_saved], append_row_calls = [row]\<rparr>
         \<and> msg_saved \<noteq> msg_not_saved"
  using assms
  by (simp add: step_def handle_confirmation_def clear_def msg_saved_def msg_not_saved_def)

theorem failed_append_still_clears_witness:
  "state example_confirm = Some EventForm_confirm
   \<and> py_in kw_submit (str_lower (example_env False) (str_strip say_submit))
   \<and> \<not> sheet_append_row (example_env False)
         (row_of (data example_confirm) (datetime_now (example_env False)))
   \<and> step (example_env False) (text_message say_submit) example_confirm =
       Inr \<lparr>ctx = fresh, answers = [answer msg_not_saved],
            append_row_calls = [row_of example_data (datetime_now (example_env False))]\<rparr>
   \<and> step (example_env True) (text_message say_submit) example_confirm =
       Inr \<lparr>ctx = fresh, answers = [answer msg_saved],
            append_row_calls = [row_of example_data (datetime_now (example_env False))]\<rparr>"
proof -
  have k: "py_in kw_submit (str_lower (example_env False) (str_strip say_submit))"
    by (simp add: example_text lower_strip_examples token_examples)
  have a: "\<not> sheet_append_row (example_env False)
      (row_of (data example_confirm) (datetime_now (example_env False)))"
    by (simp add: example_env_def)
  have e: "(example_env False)\<lparr>sheet_append_row := \<lambda>r. True\<rparr> = example_env True"
    by (simp add: example_env_def)
  from failed_append_still_clears [OF example_text(2) example_text(1) k refl a]
    example_text(2) k a
  show ?thesis
    by (simp add: e fresh_def example_confirm_def)
qed

section \<open>Editing a field\<close>

text \<open>
  C5 as it is written does not hold. With the six fields stored and the session in the
  confirmation state, a message with the edit token and the keyword of the region that
  also has the submit token is a submission: the row is appended and the fields are
  cleared. A message with the edit token and the keywords of the region and of the date
  asks for the date, the earlier entry of the table.
\<close>

theorem edit_region_counterexample:
  "py_in kw_edit (str_lower (example_env True) (str_strip say_edit_region_date))
   \<and> py_in kw_region (str_lower (example_env True) (str_strip say_edit_region_date))
   \<and> step (example_env True) (text_message say_edit_region_date) example_confirm =
       Inr \<lparr>ctx = example_confirm\<lparr>state := Some EventForm_date\<rparr>,
            answers = [answer prompt_date], append_row_calls = []\<rparr>
   \<and> py_in kw_edit (str_lower (example_env True) (str_strip say_submit_edit_region))
   \<and> py_in kw_region (str_lower (example_env True) (str_strip say_submit_edit_region))
   \<and> step (example_env True) (text_message say_submit_edit_region) example_confirm =
       Inr \<lparr>ctx = fresh, answers = [answer msg_saved],
            append_row_calls = [row_of example_data (datetime_now (example_env True))]\<rparr>"
  using confirmation_cases [of example_confirm "text_message say_edit_region_date"
      say_edit_region_date _ "example_env True", OF example_text(2) example_text(1) refl refl]
    confirmation_cases [of example_confirm "text_message say_submit_edit_region"
      say_submit_edit_region _ "example_env True", OF example_text(2) example_text(1) refl refl]
  by (simp add: example_text lower_strip_examples token_examples first_keyword_examples
      fresh_def example_confirm_def example_env_def)

text \<open>
  C5, amended. In the confirmation state, for a message whose stripped and lower-cased
  text does not contain the submit token and contains the edit token, and for the first
  entry of the edit table whose keyword the text contains: the state becomes that entry's
  collecting state, the one answer is that entry's prompt, and the stored fields, the one
  to be edited among them, are what they were.
\<close>

theorem edit_jump_keeps_fields:
  assumes "state c = Some EventForm_confirm"
    and "message_text message = Str t"
    and "text = str_lower e (str_strip t)"
    and "\<not> py_in kw_submit text"
    and "py_in kw_edit text"
    and "first_keyword text = Some (key, s, p)"
  shows "step e message c =
           Inr \<lparr>ctx = c\<lparr>state := Some s\<rparr>, answers = [answer p], append_row_calls = []\<rparr>
         \<and> data (c\<lparr>state := Some s\<rparr>) = data c
         \<and> (key, s, p) \<in> set edit_table \<and> py_in key text"
  using confirmation_cases [OF assms(1,2,3) refl] assms(4,5,6) first_keyword_Some(1,2) [OF assms(6)]
  by simp

theorem edit_jump_keeps_fields_witness:
  "state example_confirm = Some EventForm_confirm
   \<and> \<not> py_in kw_submit (str_lower (example_env True) (str_strip say_edit_region))
   \<and> py_in kw_edit (str_lower (example_env True) (str_strip say_edit_region))
   \<and> first_keyword (str_lower (example_env True) (str_strip say_edit_region)) =
       Some (kw_region, EventForm_region, prompt_region)
   \<and> step (example_env True) (text_message say_edit_region) example_confirm =
       Inr \<lparr>ctx = \<lparr>state = Some EventForm_region, data = example_data\<rparr>,
            answers = [answer prompt_region], append_row_calls = []\<rparr>"
proof -
  let ?text = "str_lower (example_env True) (str_strip say_edit_region)"
  have t: "?text = say_edit_region"
    by (simp add: example_text lower_strip_examples)
  have n: "\<not> py_in kw_submit ?text" and k: "py_in kw_edit ?text"
    and f: "first_keyword ?text = Some (kw_region, EventForm_region, prompt_region)"
    by (simp_all add: t token_examples first_keyword_examples)
  from edit_jump_keeps_fields [OF example_text(2) example_text(1) refl n k f] n k f
  show ?thesis
    by (simp add: example_confirm_def)
qed

section \<open>Text that is no command\<close>



section \<open>The order of dispatch in the confirmation state\<close>

text \<open>
  C10. In the confirmation state the submit token wins: a text that contains it is a
  submission, whatever else it contains. Without the submit token and with the edit
  token, the field to edit is that of the first entry, in the order name, date, time,
  region, description, participation of the table, whose keyword the text contains.
\<close>

theorem confirmation_dispatch_order:
  assumes "state c = Some EventForm_confirm"
    and "message_text message = Str t"
    and "text = str_lower e (str_strip t)"
    and "row = row_of (data c) (datetime_now e)"
  shows "(py_in kw_submit text \<longrightarrow>
            step e message c =
              Inr \<lparr>ctx = c\<lparr>state := None, data := Map.empty\<rparr>,
                   answers = [answer (if sheet_append_row e row then msg_saved
                                      else msg_not_saved)],
                   append_row_calls = [row]\<rparr>)
         \<and> (\<not> py_in kw_submit text \<and> py_in kw_edit text \<longrightarrow>
              (\<forall>i < length edit_table.
                 py_in (fst (edit_table ! i)) text \<and>
                 (\<forall>j < i. \<not> py_in (fst (edit_table ! j)) text) \<longrightarrow>
                 step e message c =
                   Inr \<lparr>ctx = c\<lparr>state := Some (fst (snd (edit_table ! i)))\<rparr>,
                        answers = [answer (snd (snd (edit_table ! i)))],
                        append_row_calls = []\<rparr>))
         \<and> map fst edit_table =
             [kw_name, kw_date, kw_time, kw_region, kw_description, kw_participation]
         \<and> map fst field_map = map fst edit_table"
proof -
  note cc = confirmation_cases [OF assms]
  have "step e message c =
          Inr \<lparr>ctx = c\<lparr>state := Some (fst (snd (edit_table ! i)))\<rparr>,
               answers = [answer (snd (snd (edit_table ! i)))], append_row_calls = []\<rparr>"
    if "\<not> py_in kw_submit text" "py_in kw_edit text" "i < length edit_table"
      "py_in (fst (edit_table ! i)) text" "\<forall>j < i. \<not> py_in (fst (edit_table ! j)) text"
    for i
    using cc that first_keyword_index [of i "text"]
    by (cases "edit_table ! i") simp
  then show ?thesis
    using cc by (simp add: edit_table_def field_map_def)
qed

theorem confirmation_dispatch_order_witness:
  "py_in kw_submit say_submit_edit_region \<and> py_in kw_edit say_submit_edit_region
   \<and> py_in kw_region say_submit_edit_region
   \<and> step (example_env True) (text_message say_submit_edit_region) example_confirm =
       Inr \<lparr>ctx = fresh, answers = [answer msg_saved],
            append_row_calls = [row_of example_data (datetime_now (example_env True))]\<rparr>
   \<and> py_in kw_participation say_edit_participation_name
   \<and> py_in kw_name say_edit_participation_name
   \<and> step (example_env True) (text_message say_edit_participation_name) example_confirm =
       Inr \<lparr>ctx = example_confirm\<lparr>state := Some EventForm_name\<rparr>,
            answers = [answer prompt_name], append_row_calls = []\<rparr>"
proof -
  have a: "str_lower (example_env True) (str_strip say_submit_edit_region) =
      say_submit_edit_region"
    and b: "str_lower (example_env True) (str_strip say_edit_participation_name) =
      say_edit_participation_name"
    by (simp_all add: example_text lower_strip_examples)
  have z: "(0::nat) < length edit_table" "edit_table ! 0 = (kw_name, EventForm_name, prompt_name)"
    by (simp_all add: edit_table_def)
  from confirmation_dispatch_order [of example_confirm "text_message say_submit_edit_region"
      say_submit_edit_region say_submit_edit_region "example_env True" _,
      OF example_text(2) example_text(1) a [symmetric] refl]
    confirmation_dispatch_order [of example_confirm "text_message say_edit_participation_name"
      say_edit_participation_name say_edit_participation_name "example_env True" _,
      OF example_text(2) example_text(1) b [symmetric] refl]
  show ?thesis
    using z by (auto simp: token_examples example_text fresh_def example_confirm_def example_env_def)
qed

section \<open>The order of the states\<close>

text \<open>
  C6 as it is written does not hold: the moves it lists are not all the moves of a step.
  In the confirmation state a text that is no command leaves the state where it is, and
  the submit token takes the session out of the form; a session without state stays
  without. None of the three is a move forward in the order, a jump back from the
  confirmation, or the description staying where it is.
\<close>

theorem listed_moves_counterexample:
  "step (example_env True) (text_message say_abc) example_confirm =
     Inr \<lparr>ctx = example_confirm, answers = [answer msg_help], append_row_calls = []\<rparr>
   \<and> \<not> listed_move (state example_confirm) (state example_confirm)
   \<and> step (example_env True) (text_message say_submit) example_confirm =
     Inr \<lparr>ctx = fresh, answers = [answer msg_saved],
          append_row_calls = [row_of example_data (datetime_now (example_env True))]\<rparr>
   \<and> \<not> listed_move (state example_confirm) (state fresh)
   \<and> step (example_env True) (text_message say_abc) fresh =
     Inr \<lparr>ctx = fresh, answers = [], append_row_calls = []\<rparr>
   \<and> \<not> listed_move (state fresh) (state fresh)"
  using confirmation_cases [of example_confirm "text_message say_abc" say_abc _
      "example_env True", OF example_text(2) example_text(1) refl refl]
    confirmation_cases [of example_confirm "text_message say_submit" say_submit _
      "example_env True", OF example_text(2) example_text(1) refl refl]
  by (simp add: example_text lower_strip_examples token_examples fresh_def listed_move_def
      edit_table_def example_confirm_def example_env_def step_def)

text \<open>
  C6, amended. The state of a session is always one of the eight. A step that returns
  moves one place forward in the order of the questions, or jumps from the confirmation
  back into a collecting state, or leaves the description state, the confirmation state
  or a session without state where it is, or takes the confirmation out of the form. A
  step that raises leaves the state as it was.
\<close>

theorem step_moves:
  "state c \<in> set steps
   \<and> (case step e message c of
         Inr r \<Rightarrow> move (state c) (state (ctx r)) \<and> state (ctx r) \<in> set steps
       | Inl (x, c') \<Rightarrow> state c' = state c)"
proof -
  have all: "s \<in> set steps" for s
  proof (cases s)
    case None
    then show ?thesis by (simp add: steps_def)
  next
    case (Some a)
    then show ?thesis by (cases a) (simp_all add: steps_def)
  qed
  have "case step e message c of
          Inr r \<Rightarrow> move (state c) (state (ctx r))
        | Inl (x, c') \<Rightarrow> state c' = state c"
  proof (cases "state c")
    case None
    then show ?thesis by (simp add: step_def move_def)
  next
    case (Some s)
    show ?thesis
    proof (cases "s = EventForm_confirm")
      case True
      with Some show ?thesis by (simp add: confirm_step_moves)
    next
      case False
      from collecting_step_moves [OF Some False, of e message] show ?thesis
        by (auto simp: move_def split: sum.splits)
    qed
  qed
  with all show ?thesis
    by (auto split: sum.splits)
qed

theorem step_moves_witness:
  "move (state example_confirm) (state example_confirm)
   \<and> step (example_env True) (text_message say_abc) example_confirm =
     Inr \<lparr>ctx = example_confirm, answers = [answer msg_help], append_row_calls = []\<rparr>"
proof -
  have "step (example_env True) (text_message say_abc) example_confirm =
     Inr \<lparr>ctx = example_confirm, answers = [answer msg_help], append_row_calls = []\<rparr>"
    using confirmation_cases [of example_confirm "text_message say_abc" say_abc _
      "example_env True", OF example_text(2) example_text(1) refl refl]
    by (simp add: example_text lower_strip_examples token_examples)
  with step_moves [of example_confirm "example_env True" "text_message say_abc"]
  show ?thesis by simp
qed

section \<open>A message without text\<close>

text \<open>
  C9 fails on the code. A message without text makes \<^verbatim>\<open>process_description\<close>
  raise \<^verbatim>\<open>TypeError\<close> and \<^verbatim>\<open>handle_confirmation\<close> raise
  \<^verbatim>\<open>AttributeError\<close>, whatever the session has stored; nothing is sent and the
  session stays as it was.
\<close>

theorem no_text_raises:
  "step e \<lparr>message_text = PyNone\<rparr> \<lparr>state = Some EventForm_description, data = d\<rparr> =
     Inl (TypeError, \<lparr>state = Some EventForm_description, data = d\<rparr>)
   \<and> step e \<lparr>message_text = PyNone\<rparr> \<lparr>state = Some EventForm_confirm, data = d\<rparr> =
     Inl (AttributeError, \<lparr>state = Some EventForm_confirm, data = d\<rparr>)"
  by (simp add: step_def process_description_def handle_confirmation_def)

end
